theory Spec2Isabelle
  imports Main
begin

section \<open>JavaScript values and errors\<close>

text \<open>
  The values that flow through \<^verbatim>\<open>src/src/auditManager.js\<close>: option fields, the
  documents the driver returns for \<^verbatim>\<open>connectionStatus\<close> and \<^verbatim>\<open>usersInfo\<close>, change
  notifications and their images. Numbers are the whole numbers (the code only tests
  them for truthiness and compares \<^verbatim>\<open>length === 0\<close>); an object is its list of own
  properties, looked up by key. Functions are not values of this type: the only
  function value the code handles, the transform, is kept apart (see \<open>tfval\<close>).
\<close>

datatype jsval =
    JUndefined
  | JNull
  | JBool bool
  | JNum int
  | JStr string
  | JArr "jsval list"
  | JObj "(string \<times> jsval) list"
  | JDate nat

text \<open>
  What a \<^verbatim>\<open>throw\<close> or a rejected promise carries: \<open>Error msg\<close> is
  \<^verbatim>\<open>new Error(msg)\<close> thrown by the code itself, \<open>TypeError\<close> is raised by the
  language (a property read on \<^verbatim>\<open>undefined\<close>/\<^verbatim>\<open>null\<close>, a call of something that
  is not a function, \<^verbatim>\<open>for ... of\<close> over a value that is not iterable),
  \<open>MongoError msg\<close> comes from the driver, \<open>UserError msg\<close> from a user-supplied
  transform.
\<close>

datatype error = Error string | TypeError | MongoError string | UserError string

definition bindE :: "error + 'a \<Rightarrow> ('a \<Rightarrow> error + 'b) \<Rightarrow> error + 'b" where
  "bindE r f = (case r of Inl e \<Rightarrow> Inl e | Inr v \<Rightarrow> f v)"

text \<open>\<^verbatim>\<open>!v\<close> is \<open>\<not> truthy v\<close>.\<close>

fun truthy :: "jsval \<Rightarrow> bool" where
  "truthy JUndefined = False"
| "truthy JNull = False"
| "truthy (JBool b) = b"
| "truthy (JNum n) = (n \<noteq> 0)"
| "truthy (JStr s) = (s \<noteq> [])"
| "truthy (JArr _) = True"
| "truthy (JObj _) = True"
| "truthy (JDate _) = True"

text \<open>\<^verbatim>\<open>a || b\<close> on values.\<close>

definition js_or :: "jsval \<Rightarrow> jsval \<Rightarrow> jsval" where
  "js_or a b = (if truthy a then a else b)"

text \<open>
  \<^verbatim>\<open>v.k\<close> for a data property \<open>k\<close>: a TypeError on \<^verbatim>\<open>undefined\<close> and \<^verbatim>\<open>null\<close>,
  the own property of an object (\<^verbatim>\<open>undefined\<close> when it has none), \<^verbatim>\<open>length\<close> of an
  array or a string, \<^verbatim>\<open>undefined\<close> on every other primitive. The method names the code
  calls (\<^verbatim>\<open>some\<close>, \<^verbatim>\<open>includes\<close>) are modelled by \<open>js_some\<close> and \<open>js_includes\<close>.
\<close>

fun js_get :: "jsval \<Rightarrow> string \<Rightarrow> error + jsval" where
  "js_get JUndefined k = Inl TypeError"
| "js_get JNull k = Inl TypeError"
| "js_get (JObj kvs) k = Inr (case map_of kvs k of Some v \<Rightarrow> v | None \<Rightarrow> JUndefined)"
| "js_get (JArr xs) k = Inr (if k = ''length'' then JNum (int (length xs)) else JUndefined)"
| "js_get (JStr s) k = Inr (if k = ''length'' then JNum (int (length s)) else JUndefined)"
| "js_get (JBool b) k = Inr JUndefined"
| "js_get (JNum n) k = Inr JUndefined"
| "js_get (JDate t) k = Inr JUndefined"

text \<open>\<^verbatim>\<open>v[0]\<close>.\<close>

fun js_first :: "jsval \<Rightarrow> error + jsval" where
  "js_first JUndefined = Inl TypeError"
| "js_first JNull = Inl TypeError"
| "js_first (JArr xs) = Inr (case xs of [] \<Rightarrow> JUndefined | x # _ \<Rightarrow> x)"
| "js_first (JStr s) = Inr (case s of [] \<Rightarrow> JUndefined | c # _ \<Rightarrow> JStr [c])"
| "js_first (JObj kvs) = Inr (case map_of kvs ''0'' of Some v \<Rightarrow> v | None \<Rightarrow> JUndefined)"
| "js_first (JBool b) = Inr JUndefined"
| "js_first (JNum n) = Inr JUndefined"
| "js_first (JDate t) = Inr JUndefined"

text \<open>\<^verbatim>\<open>Array.isArray(v)\<close>.\<close>

fun isArray :: "jsval \<Rightarrow> bool" where
  "isArray (JArr _) = True"
| "isArray _ = False"

text \<open>
  \<^verbatim>\<open>xs.some(f)\<close> on the elements of an array: left to right, stopping at the first
  element for which the callback returns true, or at the first callback that throws.
\<close>

fun some :: "(jsval \<Rightarrow> error + bool) \<Rightarrow> jsval list \<Rightarrow> error + bool" where
  "some f [] = Inr False"
| "some f (x # xs) =
     (case f x of Inl e \<Rightarrow> Inl e | Inr True \<Rightarrow> Inr True | Inr False \<Rightarrow> some f xs)"

text \<open>\<^verbatim>\<open>v.some(f)\<close>: only an array has the method; on any other value the call throws.\<close>

fun js_some :: "jsval \<Rightarrow> (jsval \<Rightarrow> error + bool) \<Rightarrow> error + bool" where
  "js_some (JArr xs) f = some f xs"
| "js_some _ f = Inl TypeError"

fun starts_with :: "string \<Rightarrow> string \<Rightarrow> bool" where
  "starts_with t [] = True"
| "starts_with [] (c # cs) = False"
| "starts_with (x # xs) (c # cs) = (x = c \<and> starts_with xs cs)"

fun str_includes :: "string \<Rightarrow> string \<Rightarrow> bool" where
  "str_includes [] s = (s = [])"
| "str_includes (x # xs) s = (starts_with (x # xs) s \<or> str_includes xs s)"

text \<open>
  \<^verbatim>\<open>v.includes(s)\<close> for a string literal \<open>s\<close>: membership in an array (an element
  equal to the string \<open>s\<close>), substring search in a string, a TypeError on every other
  value (they have no such method).
\<close>

fun js_includes :: "jsval \<Rightarrow> string \<Rightarrow> error + bool" where
  "js_includes (JArr xs) s = Inr (JStr s \<in> set xs)"
| "js_includes (JStr t) s = Inr (str_includes t s)"
| "js_includes _ s = Inl TypeError"

section \<open>canRunCollMod\<close>

text \<open>
  The callback of both privilege checks (lines 100--103 and 109--112):
  \<^verbatim>\<open>const actions = priv.actions || [];
  return actions.includes("collMod") || actions.includes("anyAction");\<close>
\<close>

definition grantsCollMod :: "jsval \<Rightarrow> error + bool" where
  "grantsCollMod priv =
     bindE (js_get priv ''actions'') (\<lambda>a.
       let actions = js_or a (JArr []) in
       bindE (js_includes actions ''collMod'') (\<lambda>b.
         if b then Inr True else js_includes actions ''anyAction''))"

definition adminRoles :: "string list" where
  "adminRoles = [''dbAdmin'', ''dbOwner'', ''root'', ''atlasAdmin'', ''dbAdminAnyDatabase'']"

text \<open>
  The callback of both role checks (lines 118--126 and 131--139):
  \<^verbatim>\<open>[...].includes(role.role)\<close>.
\<close>

definition isAdminRole :: "jsval \<Rightarrow> error + bool" where
  "isAdminRole r = bindE (js_get r ''role'') (\<lambda>n. Inr (n \<in> set (map JStr adminRoles)))"

text \<open>
  \<^verbatim>\<open>canRunCollMod(userData)\<close>, lines 95--143. The result is what the promise the
  async function returns settles to: \<open>Inr b\<close> when it resolves to \<open>b\<close>, \<open>Inl e\<close>
  when it rejects.
\<close>

definition canRunCollMod :: "jsval \<Rightarrow> error + bool" where
  "canRunCollMod userData =
     (if \<not> truthy userData then Inr False
      else
        bindE (js_get userData ''inheritedPrivileges'') (\<lambda>ip.
        bindE (if isArray ip then js_some ip grantsCollMod else Inr False) (\<lambda>c1.
        if c1 then Inr True
        else
          bindE (js_get userData ''privileges'') (\<lambda>ep.
          bindE (if isArray ep then js_some ep grantsCollMod else Inr False) (\<lambda>c2.
          if c2 then Inr True
          else
            bindE (js_get userData ''roles'') (\<lambda>r.
            bindE (js_some (js_or r (JArr [])) isAdminRole) (\<lambda>c3.
            if c3 then Inr True
            else
              bindE (js_get userData ''inheritedRoles'') (\<lambda>ir.
              bindE (js_some (js_or ir (JArr [])) isAdminRole) (\<lambda>c4.
              if c4 then Inr True else Inr False)))))))))"


section \<open>Principal profiles\<close>

text \<open>
  A well-formed principal profile, as \<^verbatim>\<open>usersInfo\<close> with \<^verbatim>\<open>showPrivileges\<close> reports
  it: privileges are resource--action pairs, roles are role--database pairs. The
  encoding is the document \<^verbatim>\<open>canRunCollMod\<close> receives; an absent profile is
  \<^verbatim>\<open>undefined\<close>.
\<close>

record privilege =
  pr_resource :: jsval
  pr_actions :: "string list"

record roleRef =
  rr_role :: string
  rr_db :: string

record PrincipalProfile =
  pp_user :: string
  pp_db :: string
  pp_privileges :: "privilege list"
  pp_inheritedPrivileges :: "privilege list"
  pp_roles :: "roleRef list"
  pp_inheritedRoles :: "roleRef list"

definition encodePrivilege :: "privilege \<Rightarrow> jsval" where
  "encodePrivilege p =
     JObj [(''resource'', pr_resource p), (''actions'', JArr (map JStr (pr_actions p)))]"

definition encodeRole :: "roleRef \<Rightarrow> jsval" where
  "encodeRole r = JObj [(''role'', JStr (rr_role r)), (''db'', JStr (rr_db r))]"

definition encodeProfile :: "PrincipalProfile \<Rightarrow> jsval" where
  "encodeProfile p =
     JObj [(''user'', JStr (pp_user p)),
           (''db'', JStr (pp_db p)),
           (''roles'', JArr (map encodeRole (pp_roles p))),
           (''inheritedRoles'', JArr (map encodeRole (pp_inheritedRoles p))),
           (''privileges'', JArr (map encodePrivilege (pp_privileges p))),
           (''inheritedPrivileges'', JArr (map encodePrivilege (pp_inheritedPrivileges p)))]"

definition encodeProfileOpt :: "PrincipalProfile option \<Rightarrow> jsval" where
  "encodeProfileOpt po = (case po of None \<Rightarrow> JUndefined | Some p \<Rightarrow> encodeProfile p)"

text \<open>
  The specification's \<open>canElevate\<close> (section 4.1), written from its words: first match
  wins, in the order inherited privileges, explicit privileges, explicit roles,
  inherited roles; an absent profile gives false.
\<close>

definition grantsAction :: "privilege \<Rightarrow> bool" where
  "grantsAction p = (''collMod'' \<in> set (pr_actions p) \<or> ''anyAction'' \<in> set (pr_actions p))"

definition inAllowList :: "roleRef \<Rightarrow> bool" where
  "inAllowList r = (rr_role r \<in> set adminRoles)"

definition canElevate :: "PrincipalProfile option \<Rightarrow> bool" where
  "canElevate po =
     (case po of
        None \<Rightarrow> False
      | Some p \<Rightarrow>
          if list_ex grantsAction (pp_inheritedPrivileges p) then True
          else if list_ex grantsAction (pp_privileges p) then True
          else if list_ex inAllowList (pp_roles p) then True
          else if list_ex inAllowList (pp_inheritedRoles p) then True
          else False)"

text \<open>
  Profile documents with missing or ill-typed parts. \<open>fld v k\<close> reads a field of a
  document (\<^verbatim>\<open>undefined\<close> when there is none), \<open>entries v\<close> are the elements of
  \<open>v\<close> when it is an array and none otherwise. A lenient profile is any profile that
  is not absent, whose privilege fields hold anything at all, but whose privilege
  arrays, when they are arrays, hold entries with an \<^verbatim>\<open>actions\<close> array or with no
  \<^verbatim>\<open>actions\<close>; its role fields are absent or arrays. No entry of such an array is
  \<^verbatim>\<open>null\<close> or \<^verbatim>\<open>undefined\<close>.
\<close>

definition fld :: "jsval \<Rightarrow> string \<Rightarrow> jsval" where
  "fld v k = (case js_get v k of Inl _ \<Rightarrow> JUndefined | Inr x \<Rightarrow> x)"

fun entries :: "jsval \<Rightarrow> jsval list" where
  "entries (JArr xs) = xs"
| "entries _ = []"

fun isObject :: "jsval \<Rightarrow> bool" where
  "isObject (JObj _) = True"
| "isObject _ = False"

fun nullish :: "jsval \<Rightarrow> bool" where
  "nullish JUndefined = True"
| "nullish JNull = True"
| "nullish _ = False"

definition absentOrArray :: "jsval \<Rightarrow> bool" where
  "absentOrArray v = (\<not> truthy v \<or> isArray v)"

definition lenientPrivilege :: "jsval \<Rightarrow> bool" where
  "lenientPrivilege p = (\<not> nullish p \<and> absentOrArray (fld p ''actions''))"

definition lenientRoles :: "jsval \<Rightarrow> bool" where
  "lenientRoles v = (absentOrArray v \<and> list_all (\<lambda>r. \<not> nullish r) (entries v))"

definition lenientProfile :: "jsval \<Rightarrow> bool" where
  "lenientProfile u =
     (truthy u
      \<and> list_all lenientPrivilege (entries (fld u ''inheritedPrivileges''))
      \<and> list_all lenientPrivilege (entries (fld u ''privileges''))
      \<and> lenientRoles (fld u ''roles'')
      \<and> lenientRoles (fld u ''inheritedRoles''))"

definition namesAction :: "jsval \<Rightarrow> bool" where
  "namesAction p =
     (JStr ''collMod'' \<in> set (entries (fld p ''actions''))
      \<or> JStr ''anyAction'' \<in> set (entries (fld p ''actions'')))"

definition namesAdminRole :: "jsval \<Rightarrow> bool" where
  "namesAdminRole r = (fld r ''role'' \<in> set (map JStr adminRoles))"

section \<open>The audit manager, the driver and the trace\<close>

text \<open>
  The \<^verbatim>\<open>transform\<close> option is either some value that is not a function or a function
  from a document to a document, which may throw.
\<close>

datatype tfval = NotFunction jsval | Function "jsval \<Rightarrow> error + jsval"

record options =
  opt_uri :: jsval
  opt_collections :: jsval
  opt_auditCollection :: jsval
  opt_transform :: tfval

datatype mongo_client = MongoClient jsval

datatype mongo_db = Db mongo_client

text \<open>The fields the constructor declares (lines 5--12); \<open>None\<close> is \<^verbatim>\<open>null\<close>.\<close>

record manager =
  client :: "mongo_client option"
  db :: "mongo_db option"
  collections :: jsval
  auditCollection :: jsval
  transform :: "(jsval \<Rightarrow> error + jsval) option"

definition new_manager :: manager where
  "new_manager =
     \<lparr>client = None, db = None, collections = JArr [],
      auditCollection = JStr ''audit_logs'', transform = None\<rparr>"

text \<open>
  The calls the code makes on the driver: the client constructor, \<^verbatim>\<open>connect\<close>, the
  three commands, \<^verbatim>\<open>collection(name).watch(...)\<close> and
  \<^verbatim>\<open>collection(name).insertOne(doc)\<close>.
\<close>

datatype call =
    NewMongoClient jsval
  | Connect
  | ConnectionStatus
  | UsersInfo jsval jsval
  | CollMod jsval
  | Watch jsval
  | InsertOne jsval jsval

text \<open>The console lines, by the statement that prints them.\<close>

datatype console =
    LogInitialized jsval
  | LogConnectedUser jsval
  | WarnNoAuthenticatedUser
  | WarnUserNotFound jsval jsval
  | LogEnabling jsval
  | LogEnabled jsval
  | WarnCouldNotEnable jsval error
  | LogStarted

text \<open>
  What can be observed from outside, in order: a driver call being made, a console
  line, the destination collection holding a record (an \<^verbatim>\<open>insertOne\<close> that
  succeeded), an observer of the \<^verbatim>\<open>audit\<close> event receiving a record, and the promise
  of a change handler rejecting with nothing to handle it. The number is the
  handler invocation the event belongs to.
\<close>

datatype event =
    Called call
  | Console console
  | Persisted nat jsval jsval
  | Notified nat nat jsval
  | Unhandled nat error

text \<open>
  The driver is outside the code: it answers a call with a value or throws, and its
  answer may depend on everything that has happened so far.
\<close>

type_synonym driver = "event list \<Rightarrow> call \<Rightarrow> error + jsval"

text \<open>
  A change handler between two of its \<^verbatim>\<open>await\<close>s (lines 162--166): waiting for the
  promise of \<^verbatim>\<open>createAuditDoc\<close>, waiting for \<^verbatim>\<open>insertOne\<close> on the named
  destination, or resumed after the insert and about to emit.
\<close>

datatype task =
    Built "error + jsval"
  | Inserting jsval jsval
  | Inserted jsval

record sys =
  mgr :: manager
  out :: "event list"
  feeds :: "jsval list"
  observers :: "nat list"
  tasks :: "(nat \<times> task) list"
  next_id :: nat

definition boot :: sys where
  "boot = \<lparr>mgr = new_manager, out = [], feeds = [], observers = [], tasks = [], next_id = 0\<rparr>"

text \<open>A method runs on the system and returns normally or throws.\<close>

type_synonym 'a io = "sys \<Rightarrow> (error + 'a) \<times> sys"

definition ret :: "'a \<Rightarrow> 'a io" where
  "ret v = (\<lambda>s. (Inr v, s))"

definition throw :: "error \<Rightarrow> 'a io" where
  "throw e = (\<lambda>s. (Inl e, s))"

definition bindM :: "'a io \<Rightarrow> ('a \<Rightarrow> 'b io) \<Rightarrow> 'b io" where
  "bindM m f = (\<lambda>s. case m s of (Inl e, s') \<Rightarrow> (Inl e, s') | (Inr v, s') \<Rightarrow> f v s')"

definition lift :: "error + 'a \<Rightarrow> 'a io" where
  "lift r = (\<lambda>s. (r, s))"

definition tryCatch :: "'a io \<Rightarrow> (error \<Rightarrow> 'a io) \<Rightarrow> 'a io" where
  "tryCatch m h = (\<lambda>s. case m s of (Inl e, s') \<Rightarrow> h e s' | (Inr v, s') \<Rightarrow> (Inr v, s'))"

definition this :: "manager io" where
  "this = (\<lambda>s. (Inr (mgr s), s))"

definition assign :: "(manager \<Rightarrow> manager) \<Rightarrow> unit io" where
  "assign f = (\<lambda>s. (Inr (), s\<lparr>mgr := f (mgr s)\<rparr>))"

definition print :: "console \<Rightarrow> unit io" where
  "print c = (\<lambda>s. (Inr (), s\<lparr>out := out s @ [Console c]\<rparr>))"

definition callDriver :: "driver \<Rightarrow> call \<Rightarrow> jsval io" where
  "callDriver drv c = (\<lambda>s. (drv (out s) c, s\<lparr>out := out s @ [Called c]\<rparr>))"

text \<open>A call through \<^verbatim>\<open>this.db\<close>, which throws when the field is still \<^verbatim>\<open>null\<close>.\<close>

definition dbCall :: "driver \<Rightarrow> call \<Rightarrow> jsval io" where
  "dbCall drv c =
     bindM this (\<lambda>m. case db m of None \<Rightarrow> throw TypeError | Some _ \<Rightarrow> callDriver drv c)"

fun forEach :: "('a \<Rightarrow> unit io) \<Rightarrow> 'a list \<Rightarrow> unit io" where
  "forEach f [] = ret ()"
| "forEach f (x # xs) = bindM (f x) (\<lambda>_. forEach f xs)"

text \<open>
  \<^verbatim>\<open>for (const x of v)\<close>: the elements of an array, the characters of a string, a
  TypeError on anything else.
\<close>

fun js_iter :: "jsval \<Rightarrow> error + jsval list" where
  "js_iter (JArr xs) = Inr xs"
| "js_iter (JStr s) = Inr (map (\<lambda>c. JStr [c]) s)"
| "js_iter _ = Inl TypeError"


section \<open>ensurePreImageEnabled, initialize and start\<close>

text \<open>Line 50: \<^verbatim>\<open>connectionInfo.authInfo.authenticatedUsers[0]\<close>.\<close>

definition authenticatedUser :: "jsval \<Rightarrow> error + jsval" where
  "authenticatedUser connectionInfo =
     bindE (js_get connectionInfo ''authInfo'') (\<lambda>authInfo.
     bindE (js_get authInfo ''authenticatedUsers'') js_first)"

text \<open>Line 66: \<^verbatim>\<open>userDoc.users[0]\<close>.\<close>

definition firstUser :: "jsval \<Rightarrow> error + jsval" where
  "firstUser userDoc = bindE (js_get userDoc ''users'') js_first"

text \<open>
  \<^verbatim>\<open>ensurePreImageEnabled(collectionName)\<close>, lines 47--88. The value
  \<^verbatim>\<open>canRunCollMod\<close> resolves to is awaited and dropped (line 72); only the
  \<^verbatim>\<open>collMod\<close> command stands inside \<^verbatim>\<open>try\<close>.
\<close>

definition ensurePreImageEnabled :: "driver \<Rightarrow> jsval \<Rightarrow> unit io" where
  "ensurePreImageEnabled drv collectionName =
     bindM (dbCall drv ConnectionStatus) (\<lambda>connectionInfo.
     bindM (lift (authenticatedUser connectionInfo)) (\<lambda>userInfo.
     bindM (print (LogConnectedUser userInfo)) (\<lambda>_.
     if \<not> truthy userInfo then print WarnNoAuthenticatedUser
     else
       bindM (lift (js_get userInfo ''user'')) (\<lambda>user.
       bindM (lift (js_get userInfo ''db'')) (\<lambda>userDb.
       bindM (dbCall drv (UsersInfo user userDb)) (\<lambda>userDoc.
       bindM (lift (firstUser userDoc)) (\<lambda>userData.
       if \<not> truthy userData then print (WarnUserNotFound user userDb)
       else
         bindM (lift (canRunCollMod userData)) (\<lambda>_.
         tryCatch
           (bindM (print (LogEnabling collectionName)) (\<lambda>_.
            bindM (dbCall drv (CollMod collectionName)) (\<lambda>_.
            print (LogEnabled collectionName))))
           (\<lambda>err. print (WarnCouldNotEnable collectionName err))))))))))"

text \<open>
  \<^verbatim>\<open>initialize(options)\<close>, lines 22--42; \<open>None\<close> is a call without an options
  object, on which the destructuring of line 23 throws.
\<close>

definition initialize :: "driver \<Rightarrow> options option \<Rightarrow> unit io" where
  "initialize drv options =
     (case options of
        None \<Rightarrow> throw TypeError
      | Some opts \<Rightarrow>
          if \<not> truthy (opt_uri opts) then throw (Error ''Mongo URI is required'')
          else
            bindM (lift (if \<not> truthy (opt_collections opts) then Inr True
                         else bindE (js_get (opt_collections opts) ''length'')
                                (\<lambda>n. Inr (n = JNum 0)))) (\<lambda>none.
            if none then throw (Error ''Collections to audit are required'')
            else
              bindM (callDriver drv (NewMongoClient (opt_uri opts))) (\<lambda>_.
              bindM (assign (\<lambda>m. m\<lparr>client := Some (MongoClient (opt_uri opts))\<rparr>)) (\<lambda>_.
              bindM (callDriver drv Connect) (\<lambda>_.
              bindM (assign (\<lambda>m. m\<lparr>db := map_option Db (client m)\<rparr>)) (\<lambda>_.
              bindM (assign (\<lambda>m. m\<lparr>collections := opt_collections opts\<rparr>)) (\<lambda>_.
              bindM (if truthy (opt_auditCollection opts)
                     then assign (\<lambda>m. m\<lparr>auditCollection := opt_auditCollection opts\<rparr>)
                     else ret ()) (\<lambda>_.
              bindM (case opt_transform opts of
                       Function f \<Rightarrow> assign (\<lambda>m. m\<lparr>transform := Some f\<rparr>)
                     | NotFunction _ \<Rightarrow> ret ()) (\<lambda>_.
              bindM (print (LogInitialized (opt_collections opts))) (\<lambda>_.
              bindM (lift (js_iter (opt_collections opts))) (\<lambda>names.
              forEach (ensurePreImageEnabled drv) names)))))))))))"

text \<open>
  \<^verbatim>\<open>start()\<close>, lines 150--170. Opening the feed of a collection and attaching the
  change handler to it is one driver call; the collection then stands in \<open>feeds\<close>.
\<close>

definition openFeed :: "driver \<Rightarrow> jsval \<Rightarrow> unit io" where
  "openFeed drv collName =
     bindM (dbCall drv (Watch collName)) (\<lambda>_.
     (\<lambda>s. (Inr (), s\<lparr>feeds := feeds s @ [collName]\<rparr>)))"

definition start :: "driver \<Rightarrow> unit io" where
  "start drv =
     bindM this (\<lambda>m.
     if db m = None then throw (Error ''Call initialize() first'')
     else
       bindM (lift (js_iter (collections m))) (\<lambda>names.
       bindM (forEach (openFeed drv) names) (\<lambda>_.
       print LogStarted)))"

section \<open>createAuditDoc and the change handler\<close>

text \<open>
  Lines 187--188: \<^verbatim>\<open>image && this.transform ? this.transform(image) : image\<close>.
\<close>

definition applyTransform :: "(jsval \<Rightarrow> error + jsval) option \<Rightarrow> jsval \<Rightarrow> error + jsval" where
  "applyTransform tf img =
     (case tf of
        None \<Rightarrow> Inr img
      | Some f \<Rightarrow> if truthy img then f img else Inr img)"

text \<open>
  \<^verbatim>\<open>createAuditDoc(change, collectionName)\<close>, lines 175--198, for the manager \<open>m\<close>;
  \<open>now\<close> is what the clock reads when \<^verbatim>\<open>new Date()\<close> is evaluated. The record is
  the object literal of lines 190--197.
\<close>

definition createAuditDoc :: "manager \<Rightarrow> nat \<Rightarrow> jsval \<Rightarrow> jsval \<Rightarrow> error + jsval" where
  "createAuditDoc m now change collectionName =
     bindE (js_get change ''operationType'') (\<lambda>operationType.
     bindE (js_get change ''fullDocument'') (\<lambda>fullDocument.
     bindE (js_get change ''fullDocumentBeforeChange'') (\<lambda>fullDocumentBeforeChange.
     bindE (js_get change ''documentKey'') (\<lambda>documentKey.
     let before = js_or fullDocumentBeforeChange JNull;
         after = js_or fullDocument JNull
     in
     bindE (applyTransform (transform m) before) (\<lambda>transformedBefore.
     bindE (applyTransform (transform m) after) (\<lambda>transformedAfter.
     bindE (js_get documentKey ''_id'') (\<lambda>documentId.
     Inr (JObj [(''collection'', collectionName),
                (''documentId'', documentId),
                (''operation'', operationType),
                (''timestamp'', JDate now),
                (''before'', transformedBefore),
                (''after'', transformedAfter)]))))))))"

text \<open>
  What the scheduler can do next. Each is one uninterrupted piece of execution:
  a call of a public method, the registration or removal of an observer of the
  \<^verbatim>\<open>audit\<close> event, the arrival of a notification on an open feed (the handler runs
  up to its first \<^verbatim>\<open>await\<close>), and the resumption of a suspended handler.
\<close>

datatype action =
    CallInitialize "options option"
  | CallStart
  | CallEnsurePreImageEnabled jsval
  | CallCreateAuditDoc jsval jsval nat
  | On nat
  | Off nat
  | Arrive nat jsval nat
  | Resume nat

definition removeTask :: "nat \<Rightarrow> (nat \<times> task) list \<Rightarrow> (nat \<times> task) list" where
  "removeTask i ts = filter (\<lambda>p. fst p \<noteq> i) ts"

definition setTask :: "nat \<Rightarrow> task \<Rightarrow> (nat \<times> task) list \<Rightarrow> (nat \<times> task) list" where
  "setTask i t ts = map (\<lambda>p. if fst p = i then (i, t) else p) ts"

text \<open>
  The handler of lines 162--166 from one \<^verbatim>\<open>await\<close> to the next.
  \<open>arrive\<close>: the \<open>k\<close>-th open feed delivers \<open>change\<close>; the handler calls
  \<^verbatim>\<open>createAuditDoc\<close>, whose body runs at once, and waits for its promise.
  \<open>resume\<close>: a rejected promise ends the handler, and nothing handles the
  rejection; a built record is handed to \<^verbatim>\<open>insertOne\<close> on the destination that
  \<^verbatim>\<open>this.auditCollection\<close> names at that moment; when the insert has succeeded the
  record is in the destination; the handler then emits it to the observers
  registered at that moment, in the order of their registration. An observer is
  known by its number, one entry of \<open>observers\<close> per registration; what the
  observer does with the record is outside the model.
\<close>

definition arrive :: "nat \<Rightarrow> jsval \<Rightarrow> nat \<Rightarrow> sys \<Rightarrow> sys" where
  "arrive k change now s =
     (if k < length (feeds s)
      then s\<lparr>tasks := tasks s @ [(next_id s, Built (createAuditDoc (mgr s) now change (feeds s ! k)))],
             next_id := Suc (next_id s)\<rparr>
      else s)"

definition resume :: "driver \<Rightarrow> nat \<Rightarrow> sys \<Rightarrow> sys" where
  "resume drv i s =
     (case map_of (tasks s) i of
        None \<Rightarrow> s
      | Some (Built (Inl e)) \<Rightarrow>
          s\<lparr>tasks := removeTask i (tasks s), out := out s @ [Unhandled i e]\<rparr>
      | Some (Built (Inr auditDoc)) \<Rightarrow>
          (case db (mgr s) of
             None \<Rightarrow> s\<lparr>tasks := removeTask i (tasks s), out := out s @ [Unhandled i TypeError]\<rparr>
           | Some _ \<Rightarrow>
               s\<lparr>tasks := setTask i (Inserting (auditCollection (mgr s)) auditDoc) (tasks s),
                 out := out s @ [Called (InsertOne (auditCollection (mgr s)) auditDoc)]\<rparr>)
      | Some (Inserting dest auditDoc) \<Rightarrow>
          (case drv (out s) (InsertOne dest auditDoc) of
             Inl e \<Rightarrow> s\<lparr>tasks := removeTask i (tasks s), out := out s @ [Unhandled i e]\<rparr>
           | Inr _ \<Rightarrow>
               s\<lparr>tasks := setTask i (Inserted auditDoc) (tasks s),
                 out := out s @ [Persisted i dest auditDoc]\<rparr>)
      | Some (Inserted auditDoc) \<Rightarrow>
          s\<lparr>tasks := removeTask i (tasks s),
            out := out s @ map (\<lambda>l. Notified i l auditDoc) (observers s)\<rparr>)"

text \<open>\<^verbatim>\<open>removeListener\<close> takes out the most recent registration of the listener.\<close>

definition removeListener :: "nat \<Rightarrow> nat list \<Rightarrow> nat list" where
  "removeListener l ls = rev (remove1 l (rev ls))"

fun exec :: "driver \<Rightarrow> sys \<Rightarrow> action \<Rightarrow> sys" where
  "exec drv s (CallInitialize options) = snd (initialize drv options s)"
| "exec drv s CallStart = snd (start drv s)"
| "exec drv s (CallEnsurePreImageEnabled collectionName) =
     snd (ensurePreImageEnabled drv collectionName s)"
| "exec drv s (CallCreateAuditDoc change collectionName now) =
     snd (lift (createAuditDoc (mgr s) now change collectionName) s)"
| "exec drv s (On l) = s\<lparr>observers := observers s @ [l]\<rparr>"
| "exec drv s (Off l) = s\<lparr>observers := removeListener l (observers s)\<rparr>"
| "exec drv s (Arrive k change now) = arrive k change now s"
| "exec drv s (Resume i) = resume drv i s"

definition run :: "driver \<Rightarrow> sys \<Rightarrow> action list \<Rightarrow> sys" where
  "run drv s acts = foldl (exec drv) s acts"


section \<open>Vocabulary of the properties\<close>

text \<open>
  A profile document given by its four fields alone, each holding any value.
\<close>

definition rawProfile :: "jsval \<Rightarrow> jsval \<Rightarrow> jsval \<Rightarrow> jsval \<Rightarrow> jsval" where
  "rawProfile ip ep r ir =
     JObj [(''inheritedPrivileges'', ip), (''privileges'', ep),
           (''roles'', r), (''inheritedRoles'', ir)]"

definition encodePrivileges :: "privilege list \<Rightarrow> jsval" where
  "encodePrivileges ps = JArr (map encodePrivilege ps)"

definition encodeRoles :: "roleRef list \<Rightarrow> jsval" where
  "encodeRoles rs = JArr (map encodeRole rs)"

text \<open>Example principals.\<close>

definition grantingPrivilege :: privilege where
  "grantingPrivilege =
     \<lparr>pr_resource = JObj [(''db'', JStr ''shop''), (''collection'', JStr '''')],
      pr_actions = [''find'', ''collMod'']\<rparr>"

definition readPrivilege :: privilege where
  "readPrivilege =
     \<lparr>pr_resource = JObj [(''db'', JStr ''shop''), (''collection'', JStr '''')],
      pr_actions = [''find'']\<rparr>"

definition ownerRole :: roleRef where
  "ownerRole = \<lparr>rr_role = ''dbOwner'', rr_db = ''shop''\<rparr>"

definition sparseProfile :: jsval where
  "sparseProfile =
     JObj [(''user'', JStr ''auditor''),
           (''inheritedPrivileges'', JStr ''collMod''),
           (''privileges'', JArr [JObj [(''resource'', JNull)]]),
           (''inheritedRoles'', JNull)]"

text \<open>Example change notifications and the redacting transform.\<close>

definition paidOrder :: jsval where
  "paidOrder = JObj [(''_id'', JNum 7), (''status'', JStr ''paid'')]"

definition openOrder :: jsval where
  "openOrder = JObj [(''_id'', JNum 7), (''status'', JStr ''open'')]"

definition updateChange :: jsval where
  "updateChange =
     JObj [(''operationType'', JStr ''update''),
           (''documentKey'', JObj [(''_id'', JNum 7)]),
           (''fullDocument'', paidOrder),
           (''fullDocumentBeforeChange'', openOrder)]"

definition insertChange :: jsval where
  "insertChange =
     JObj [(''operationType'', JStr ''insert''),
           (''documentKey'', JObj [(''_id'', JNum 7)]),
           (''fullDocument'', openOrder)]"

definition redacted :: jsval where
  "redacted = JObj [(''redacted'', JBool True)]"

definition redact :: "jsval \<Rightarrow> error + jsval" where
  "redact doc = Inr redacted"


definition plainManager :: manager where
  "plainManager =
     \<lparr>client = Some (MongoClient (JStr ''mongodb://localhost:27017/shop'')),
      db = Some (Db (MongoClient (JStr ''mongodb://localhost:27017/shop''))),
      collections = JArr [JStr ''orders''],
      auditCollection = JStr ''audit_logs'',
      transform = None\<rparr>"

text \<open>
  \<open>invariantly I m\<close>: running the method \<open>m\<close> in a state that satisfies \<open>I\<close> leaves
  a state that satisfies \<open>I\<close>, whether \<open>m\<close> returns or throws.
\<close>

definition invariantly :: "(sys \<Rightarrow> bool) \<Rightarrow> 'a io \<Rightarrow> bool" where
  "invariantly I m = (\<forall>s. I s \<longrightarrow> I (snd (m s)))"

fun isInitialize :: "action \<Rightarrow> bool" where
  "isInitialize (CallInitialize _) = True"
| "isInitialize _ = False"

text \<open>
  Assumptions on the driver. \<open>connects\<close>: the client can be built and connects.
  \<open>resolves\<close>: the two commands that look the principal up answer, with documents in
  which the code finds the fields it reads, and \<^verbatim>\<open>canRunCollMod\<close> returns on the
  principal's document; the principal may be missing from either answer and may lack
  every permission, and nothing is assumed of \<^verbatim>\<open>collMod\<close>. \<open>watches\<close>: a feed can be
  opened on every collection.
\<close>

definition connects :: "driver \<Rightarrow> bool" where
  "connects drv =
     (\<forall>tr uri. (\<exists>v. drv tr (NewMongoClient uri) = Inr v) \<and> (\<exists>v. drv tr Connect = Inr v))"

definition resolves :: "driver \<Rightarrow> bool" where
  "resolves drv =
     (\<forall>tr. (\<exists>ci ui. drv tr ConnectionStatus = Inr ci \<and> authenticatedUser ci = Inr ui)
         \<and> (\<forall>u d. \<exists>doc ud b. drv tr (UsersInfo u d) = Inr doc \<and> firstUser doc = Inr ud
                \<and> canRunCollMod ud = Inr b))"


text \<open>The fields of the manager after the assignments of lines 28--33.\<close>

definition configured :: "options \<Rightarrow> manager \<Rightarrow> manager" where
  "configured opts m =
     m\<lparr>client := Some (MongoClient (opt_uri opts)),
       db := Some (Db (MongoClient (opt_uri opts))),
       collections := opt_collections opts,
       auditCollection :=
         (if truthy (opt_auditCollection opts) then opt_auditCollection opts
          else auditCollection m),
       transform := (case opt_transform opts of Function f \<Rightarrow> Some f
                     | NotFunction _ \<Rightarrow> transform m)\<rparr>"

text \<open>Example deployments.\<close>

definition okDoc :: jsval where
  "okDoc = JObj [(''ok'', JNum 1)]"

definition statusDoc :: jsval where
  "statusDoc =
     JObj [(''authInfo'',
            JObj [(''authenticatedUsers'',
                   JArr [JObj [(''user'', JStr ''auditor''), (''db'', JStr ''admin'')]]),
                  (''authenticatedUserRoles'', JArr [])]),
           (''ok'', JNum 1)]"

definition ownerProfile :: PrincipalProfile where
  "ownerProfile =
     \<lparr>pp_user = ''auditor'', pp_db = ''admin'', pp_privileges = [],
      pp_inheritedPrivileges = [grantingPrivilege],
      pp_roles = [ownerRole], pp_inheritedRoles = [ownerRole]\<rparr>"

definition readerProfile :: PrincipalProfile where
  "readerProfile =
     \<lparr>pp_user = ''auditor'', pp_db = ''admin'', pp_privileges = [],
      pp_inheritedPrivileges = [readPrivilege],
      pp_roles = [\<lparr>rr_role = ''read'', rr_db = ''shop''\<rparr>],
      pp_inheritedRoles = [\<lparr>rr_role = ''read'', rr_db = ''shop''\<rparr>]\<rparr>"

text \<open>
  A server on which \<^verbatim>\<open>auditor@admin\<close> is authenticated, with the given user document
  and the given answer to \<^verbatim>\<open>collMod\<close>.
\<close>

definition answering :: "jsval \<Rightarrow> error + jsval \<Rightarrow> driver" where
  "answering userData collModAnswer tr c =
     (case c of
        ConnectionStatus \<Rightarrow> Inr statusDoc
      | UsersInfo u d \<Rightarrow> Inr (JObj [(''users'', JArr [userData]), (''ok'', JNum 1)])
      | CollMod n \<Rightarrow> collModAnswer
      | _ \<Rightarrow> Inr okDoc)"

definition adminDriver :: driver where
  "adminDriver = answering (encodeProfile ownerProfile) (Inr okDoc)"

definition notAuthorized :: error where
  "notAuthorized = MongoError ''not authorized on shop to execute command collMod''"

definition readOnlyDriver :: driver where
  "readOnlyDriver = answering (encodeProfile readerProfile) (Inl notAuthorized)"



definition shopOptions :: options where
  "shopOptions =
     \<lparr>opt_uri = JStr ''mongodb://localhost:27017/shop'',
      opt_collections = JArr [JStr ''orders''],
      opt_auditCollection = JUndefined,
      opt_transform = NotFunction JUndefined\<rparr>"

definition connected :: sys where
  "connected = boot\<lparr>mgr := plainManager\<rparr>"
















section \<open>The permission check\<close>

lemma some_list_ex:
  "(\<And>x. x \<in> set xs \<Longrightarrow> f x = Inr (g x)) \<Longrightarrow> some f xs = Inr (list_ex g xs)"
  by (induction xs) (auto split: bool.splits)

lemma js_get_present: "\<not> nullish v \<Longrightarrow> js_get v k = Inr (fld v k)"
  by (cases v) (simp_all add: fld_def)

lemma grantsCollMod_lenient:
  assumes "lenientPrivilege p"
  shows "grantsCollMod p = Inr (namesAction p)"
proof -
  from assms have g: "js_get p ''actions'' = Inr (fld p ''actions'')"
    by (simp add: lenientPrivilege_def js_get_present)
  from assms have "absentOrArray (fld p ''actions'')"
    by (simp add: lenientPrivilege_def)
  then show ?thesis
    unfolding grantsCollMod_def g namesAction_def
    by (cases "fld p ''actions''") (auto simp: absentOrArray_def bindE_def js_or_def)
qed

lemma isAdminRole_entry:
  assumes "\<not> nullish r"
  shows "isAdminRole r = Inr (namesAdminRole r)"
  using assms by (simp add: isAdminRole_def namesAdminRole_def js_get_present bindE_def)

lemma js_some_entries:
  assumes "isArray v" "\<And>x. x \<in> set (entries v) \<Longrightarrow> f x = Inr (g x)"
  shows "js_some v f = Inr (list_ex g (entries v))"
  using assms by (cases v) (auto intro: some_list_ex)

lemma privilege_check:
  assumes "list_all lenientPrivilege (entries v)"
  shows "(if isArray v then js_some v grantsCollMod else Inr False)
         = Inr (list_ex namesAction (entries v))"
proof (cases "isArray v")
  case True
  with assms show ?thesis
    by (simp add: js_some_entries [where g = namesAction] grantsCollMod_lenient list_all_iff)
next
  case False
  then show ?thesis by (cases v) auto
qed

lemma role_check:
  assumes "lenientRoles v"
  shows "js_some (js_or v (JArr [])) isAdminRole = Inr (list_ex namesAdminRole (entries v))"
proof (cases v)
  case (JArr xs)
  with assms show ?thesis
    by (auto simp: lenientRoles_def js_or_def list_all_iff isAdminRole_entry intro!: some_list_ex)
qed (use assms in \<open>auto simp: lenientRoles_def absentOrArray_def js_or_def\<close>)

lemma canRunCollMod_lenient_aux:
  assumes "lenientProfile u"
  shows "canRunCollMod u =
           Inr (list_ex namesAction (entries (fld u ''inheritedPrivileges''))
                \<or> list_ex namesAction (entries (fld u ''privileges''))
                \<or> list_ex namesAdminRole (entries (fld u ''roles''))
                \<or> list_ex namesAdminRole (entries (fld u ''inheritedRoles'')))"
proof -
  from assms have t: "truthy u"
    by (simp add: lenientProfile_def)
  then have "\<not> nullish u" by (cases u) simp_all
  then have g: "js_get u k = Inr (fld u k)" for k
    by (rule js_get_present)
  from assms have
    ip: "list_all lenientPrivilege (entries (fld u ''inheritedPrivileges''))" and
    ep: "list_all lenientPrivilege (entries (fld u ''privileges''))" and
    r: "lenientRoles (fld u ''roles'')" and
    ir: "lenientRoles (fld u ''inheritedRoles'')"
    by (simp_all add: lenientProfile_def)
  show ?thesis
    unfolding canRunCollMod_def
    by (simp add: t g bindE_def privilege_check [OF ip] privilege_check [OF ep]
        role_check [OF r] role_check [OF ir] del: js_get.simps)
qed

lemma grantsCollMod_encode: "grantsCollMod (encodePrivilege p) = Inr (grantsAction p)"
  by (auto simp: grantsCollMod_def encodePrivilege_def grantsAction_def bindE_def js_or_def)

lemma isAdminRole_encode: "isAdminRole (encodeRole r) = Inr (inAllowList r)"
  by (auto simp: isAdminRole_def encodeRole_def inAllowList_def bindE_def)

lemma some_encodePrivilege:
  "some grantsCollMod (map encodePrivilege ps) = Inr (list_ex grantsAction ps)"
  by (induction ps) (auto simp: grantsCollMod_encode split: bool.splits)

lemma some_encodeRole:
  "some isAdminRole (map encodeRole rs) = Inr (list_ex inAllowList rs)"
  by (induction rs) (auto simp: isAdminRole_encode split: bool.splits)

lemma canRunCollMod_raw:
  "canRunCollMod (rawProfile ip ep r ir) =
     bindE (if isArray ip then js_some ip grantsCollMod else Inr False) (\<lambda>c1.
     if c1 then Inr True
     else bindE (if isArray ep then js_some ep grantsCollMod else Inr False) (\<lambda>c2.
     if c2 then Inr True
     else bindE (js_some (js_or r (JArr [])) isAdminRole) (\<lambda>c3.
     if c3 then Inr True
     else bindE (js_some (js_or ir (JArr [])) isAdminRole) (\<lambda>c4. Inr c4))))"
  by (simp add: canRunCollMod_def rawProfile_def bindE_def split: sum.splits)

lemma canRunCollMod_encodeProfile:
  "canRunCollMod (encodeProfile p) = Inr (canElevate (Some p))"
  by (simp add: canRunCollMod_def encodeProfile_def bindE_def js_or_def canElevate_def
      some_encodePrivilege some_encodeRole)

text \<open>
  C1. On the document of every well-formed principal profile \<^verbatim>\<open>canRunCollMod\<close>
  resolves to the specification's \<open>canElevate\<close>: true exactly when the inherited
  privileges, the explicit privileges, the explicit roles or the inherited roles meet
  their condition, and false for an absent profile. The order of the four checks is
  the stated one: a check that succeeds decides the result whatever the fields of the
  later checks hold, even values on which a later check would throw.
\<close>

theorem canRunCollMod_first_match:
  "canRunCollMod (encodeProfileOpt po) = Inr (canElevate po)
   \<and> canElevate None = False
   \<and> canElevate (Some p) =
       (list_ex grantsAction (pp_inheritedPrivileges p)
        \<or> list_ex grantsAction (pp_privileges p)
        \<or> list_ex inAllowList (pp_roles p)
        \<or> list_ex inAllowList (pp_inheritedRoles p))
   \<and> (list_ex grantsAction ips \<longrightarrow>
        canRunCollMod (rawProfile (encodePrivileges ips) ep r ir) = Inr True)
   \<and> (\<not> list_ex grantsAction ips \<and> list_ex grantsAction eps \<longrightarrow>
        canRunCollMod (rawProfile (encodePrivileges ips) (encodePrivileges eps) r ir) = Inr True)
   \<and> (\<not> list_ex grantsAction ips \<and> \<not> list_ex grantsAction eps \<and> list_ex inAllowList rs \<longrightarrow>
        canRunCollMod (rawProfile (encodePrivileges ips) (encodePrivileges eps) (encodeRoles rs) ir)
          = Inr True)"
proof -
  have a: "canRunCollMod (encodeProfileOpt po) = Inr (canElevate po)"
    by (cases po) (simp_all add: encodeProfileOpt_def canRunCollMod_encodeProfile,
        simp add: canRunCollMod_def canElevate_def)
  have b: "canElevate None = False"
    by (simp add: canElevate_def)
  have c: "canElevate (Some p) =
       (list_ex grantsAction (pp_inheritedPrivileges p)
        \<or> list_ex grantsAction (pp_privileges p)
        \<or> list_ex inAllowList (pp_roles p)
        \<or> list_ex inAllowList (pp_inheritedRoles p))"
    by (simp add: canElevate_def)
  have d: "list_ex grantsAction ips \<longrightarrow>
        canRunCollMod (rawProfile (encodePrivileges ips) ep r ir) = Inr True"
    by (simp add: canRunCollMod_raw encodePrivileges_def some_encodePrivilege bindE_def)
  have e: "\<not> list_ex grantsAction ips \<and> list_ex grantsAction eps \<longrightarrow>
        canRunCollMod (rawProfile (encodePrivileges ips) (encodePrivileges eps) r ir) = Inr True"
    by (simp add: canRunCollMod_raw encodePrivileges_def some_encodePrivilege bindE_def)
  have f: "\<not> list_ex grantsAction ips \<and> \<not> list_ex grantsAction eps \<and> list_ex inAllowList rs \<longrightarrow>
        canRunCollMod (rawProfile (encodePrivileges ips) (encodePrivileges eps) (encodeRoles rs) ir)
          = Inr True"
    by (simp add: canRunCollMod_raw encodePrivileges_def encodeRoles_def some_encodePrivilege
        some_encodeRole bindE_def js_or_def)
  from a b c d e f show ?thesis by blast
qed

theorem canRunCollMod_first_match_witness:
  "list_ex grantsAction [grantingPrivilege]
   \<and> canRunCollMod (rawProfile (encodePrivileges [grantingPrivilege]) (JNum 7) (JNum 7) (JNum 7))
       = Inr True
   \<and> \<not> list_ex grantsAction [readPrivilege]
   \<and> canRunCollMod (rawProfile (encodePrivileges [readPrivilege])
        (encodePrivileges [grantingPrivilege]) (JNum 7) (JNum 7)) = Inr True
   \<and> list_ex inAllowList [ownerRole]
   \<and> canRunCollMod (rawProfile (encodePrivileges [readPrivilege])
        (encodePrivileges [readPrivilege]) (encodeRoles [ownerRole]) (JNum 7)) = Inr True
   \<and> canRunCollMod (rawProfile (encodePrivileges [readPrivilege])
        (encodePrivileges [readPrivilege]) (JNum 7) (JNum 7)) = Inl TypeError"
proof -
  have g: "list_ex grantsAction [grantingPrivilege]"
    by (simp add: grantsAction_def grantingPrivilege_def)
  have n: "\<not> list_ex grantsAction [readPrivilege]"
    by (simp add: grantsAction_def readPrivilege_def)
  have o: "list_ex inAllowList [ownerRole]"
    by (simp add: inAllowList_def ownerRole_def adminRoles_def)
  have t: "canRunCollMod (rawProfile (encodePrivileges [readPrivilege])
        (encodePrivileges [readPrivilege]) (JNum 7) (JNum 7)) = Inl TypeError"
    using n by (simp add: canRunCollMod_raw encodePrivileges_def grantsCollMod_encode bindE_def js_or_def)
  show ?thesis
    using g n o t
      canRunCollMod_first_match [of None undefined "[grantingPrivilege]" "JNum 7" "JNum 7" "JNum 7" "[]" "[]"]
      canRunCollMod_first_match [of None undefined "[readPrivilege]" "JNum 7" "JNum 7" "JNum 7" "[grantingPrivilege]" "[]"]
      canRunCollMod_first_match [of None undefined "[readPrivilege]" "JNum 7" "JNum 7" "JNum 7" "[readPrivilege]" "[ownerRole]"]
    by simp
qed

text \<open>
  C10. \<^verbatim>\<open>canRunCollMod\<close> returns a boolean on every lenient profile document, and
  the boolean is the one obtained by reading a privilege field that is not an array,
  an absent role field and a privilege entry without \<^verbatim>\<open>actions\<close> as empty: each of
  them contributes false.
\<close>

theorem canRunCollMod_total_on_lenient:
  assumes "lenientProfile u"
  shows "canRunCollMod u =
           Inr (list_ex namesAction (entries (fld u ''inheritedPrivileges''))
                \<or> list_ex namesAction (entries (fld u ''privileges''))
                \<or> list_ex namesAdminRole (entries (fld u ''roles''))
                \<or> list_ex namesAdminRole (entries (fld u ''inheritedRoles'')))"
  using assms by (rule canRunCollMod_lenient_aux)

theorem canRunCollMod_total_on_lenient_witness:
  "lenientProfile sparseProfile \<and> truthy sparseProfile
   \<and> \<not> isArray (fld sparseProfile ''inheritedPrivileges'')
   \<and> fld sparseProfile ''roles'' = JUndefined
   \<and> canRunCollMod sparseProfile = Inr False"
proof -
  have l: "lenientProfile sparseProfile"
    by (simp add: lenientProfile_def sparseProfile_def fld_def lenientPrivilege_def
        lenientRoles_def absentOrArray_def)
  from canRunCollMod_total_on_lenient [OF l] show ?thesis
    using l by (simp add: sparseProfile_def fld_def namesAction_def)
qed

section \<open>Building the audit record\<close>

lemma js_get_object: "isObject v \<Longrightarrow> js_get v k = Inr (fld v k)"
  by (cases v) (simp_all add: fld_def)

lemma createAuditDoc_object:
  assumes "isObject change" "isObject (fld change ''documentKey'')"
  shows "createAuditDoc m now change coll =
           bindE (applyTransform (transform m) (js_or (fld change ''fullDocumentBeforeChange'') JNull))
             (\<lambda>b. bindE (applyTransform (transform m) (js_or (fld change ''fullDocument'') JNull))
             (\<lambda>a. Inr (JObj [(''collection'', coll),
                              (''documentId'', fld (fld change ''documentKey'') ''_id''),
                              (''operation'', fld change ''operationType''),
                              (''timestamp'', JDate now),
                              (''before'', b),
                              (''after'', a)])))"
  using assms
  by (simp add: createAuditDoc_def js_get_object bindE_def Let_def del: js_get.simps
      split: sum.splits)

text \<open>
  C5. With no transform configured, an update notification with document key
  \<^verbatim>\<open>{_id: X}\<close>, before-image \<open>B\<close> and after-image \<open>A\<close> (each a document, or absent)
  gives the record with the collection name, \<open>documentId = X\<close>,
  \<open>operation = "update"\<close>, \<open>before = B\<close> and \<open>after = A\<close>, an absent image being recorded
  as \<^verbatim>\<open>null\<close>. The timestamp is the reading of the clock taken while the record is
  built, whatever else the notification carries; it is not earlier than the time of
  the call when the clock does not run backwards in between.
\<close>

theorem createAuditDoc_update_shape:
  assumes "transform m = None"
    and "isObject change"
    and "fld change ''operationType'' = JStr ''update''"
    and "isObject (fld change ''documentKey'')"
    and "fld (fld change ''documentKey'') ''_id'' = X"
    and "fld change ''fullDocumentBeforeChange'' = B"
    and "fld change ''fullDocument'' = A"
    and "isObject B \<or> B = JUndefined \<or> B = JNull"
    and "isObject A \<or> A = JUndefined \<or> A = JNull"
    and "invoked \<le> now"
  shows "createAuditDoc m now change coll =
           Inr (JObj [(''collection'', coll),
                      (''documentId'', X),
                      (''operation'', JStr ''update''),
                      (''timestamp'', JDate now),
                      (''before'', if isObject B then B else JNull),
                      (''after'', if isObject A then A else JNull)])
         \<and> (\<exists>doc t. createAuditDoc m now change coll = Inr doc
                \<and> fld doc ''timestamp'' = JDate t \<and> invoked \<le> t)"
proof -
  have b: "js_or B JNull = (if isObject B then B else JNull)"
    using assms(8) by (cases B) (auto simp: js_or_def)
  have a: "js_or A JNull = (if isObject A then A else JNull)"
    using assms(9) by (cases A) (auto simp: js_or_def)
  have "createAuditDoc m now change coll =
           Inr (JObj [(''collection'', coll),
                      (''documentId'', X),
                      (''operation'', JStr ''update''),
                      (''timestamp'', JDate now),
                      (''before'', if isObject B then B else JNull),
                      (''after'', if isObject A then A else JNull)])"
    using assms(1-7)
    by (simp add: createAuditDoc_object applyTransform_def bindE_def a b)
  then show ?thesis
    using assms(10) by (simp add: fld_def)
qed

theorem createAuditDoc_update_shape_witness:
  "createAuditDoc plainManager 1700000000 updateChange (JStr ''orders'') =
     Inr (JObj [(''collection'', JStr ''orders''),
                (''documentId'', JNum 7),
                (''operation'', JStr ''update''),
                (''timestamp'', JDate 1700000000),
                (''before'', openOrder),
                (''after'', paidOrder)])"
  using createAuditDoc_update_shape [of plainManager updateChange "JNum 7" openOrder paidOrder
      1600000000 1700000000 "JStr ''orders''"]
  by (simp add: plainManager_def updateChange_def openOrder_def paidOrder_def fld_def)

text \<open>
  C6. With a transform \<open>f\<close> configured, the before-image and the after-image are each
  passed to \<open>f\<close> on their own when they are present, and an absent image is recorded
  as \<^verbatim>\<open>null\<close> without \<open>f\<close> being applied: the record of a notification with an absent
  image has \<^verbatim>\<open>null\<close> in that field for every \<open>f\<close>, also one that throws on every
  input or maps every input to the same document.
\<close>

theorem createAuditDoc_transform_isolation:
  assumes "transform m = Some f"
    and "isObject change"
    and "isObject (fld change ''documentKey'')"
    and "fld change ''fullDocumentBeforeChange'' = B"
    and "fld change ''fullDocument'' = A"
  shows "(\<not> truthy B \<and> \<not> truthy A \<longrightarrow>
            createAuditDoc m now change coll =
              Inr (JObj [(''collection'', coll),
                         (''documentId'', fld (fld change ''documentKey'') ''_id''),
                         (''operation'', fld change ''operationType''),
                         (''timestamp'', JDate now),
                         (''before'', JNull),
                         (''after'', JNull)]))
       \<and> (\<not> truthy B \<and> truthy A \<and> f A = Inr A' \<longrightarrow>
            createAuditDoc m now change coll =
              Inr (JObj [(''collection'', coll),
                         (''documentId'', fld (fld change ''documentKey'') ''_id''),
                         (''operation'', fld change ''operationType''),
                         (''timestamp'', JDate now),
                         (''before'', JNull),
                         (''after'', A')]))
       \<and> (truthy B \<and> f B = Inr B' \<and> \<not> truthy A \<longrightarrow>
            createAuditDoc m now change coll =
              Inr (JObj [(''collection'', coll),
                         (''documentId'', fld (fld change ''documentKey'') ''_id''),
                         (''operation'', fld change ''operationType''),
                         (''timestamp'', JDate now),
                         (''before'', B'),
                         (''after'', JNull)]))
       \<and> (truthy B \<and> f B = Inr B' \<and> truthy A \<and> f A = Inr A' \<longrightarrow>
            createAuditDoc m now change coll =
              Inr (JObj [(''collection'', coll),
                         (''documentId'', fld (fld change ''documentKey'') ''_id''),
                         (''operation'', fld change ''operationType''),
                         (''timestamp'', JDate now),
                         (''before'', B'),
                         (''after'', A')]))"
  using assms
  by (simp add: createAuditDoc_object applyTransform_def bindE_def js_or_def)

theorem createAuditDoc_transform_isolation_witness:
  "createAuditDoc (plainManager\<lparr>transform := Some redact\<rparr>) 1700000000 insertChange (JStr ''orders'') =
     Inr (JObj [(''collection'', JStr ''orders''),
                (''documentId'', JNum 7),
                (''operation'', JStr ''insert''),
                (''timestamp'', JDate 1700000000),
                (''before'', JNull),
                (''after'', redacted)])
   \<and> createAuditDoc (plainManager\<lparr>transform := Some redact\<rparr>) 1700000000 updateChange (JStr ''orders'') =
     Inr (JObj [(''collection'', JStr ''orders''),
                (''documentId'', JNum 7),
                (''operation'', JStr ''update''),
                (''timestamp'', JDate 1700000000),
                (''before'', redacted),
                (''after'', redacted)])"
  using createAuditDoc_transform_isolation [of "plainManager\<lparr>transform := Some redact\<rparr>" redact
      insertChange JUndefined openOrder 1700000000 "JStr ''orders''" redacted undefined]
    createAuditDoc_transform_isolation [of "plainManager\<lparr>transform := Some redact\<rparr>" redact
      updateChange openOrder paidOrder 1700000000 "JStr ''orders''" redacted redacted]
  by (simp add: plainManager_def insertChange_def updateChange_def openOrder_def paidOrder_def
      fld_def redact_def)

section \<open>What the methods leave unchanged\<close>

lemma invariantly_ret: "invariantly I (ret v)"
  by (simp add: invariantly_def ret_def)

lemma invariantly_throw: "invariantly I (throw e)"
  by (simp add: invariantly_def throw_def)

lemma invariantly_lift: "invariantly I (lift r)"
  by (simp add: invariantly_def lift_def)

lemma invariantly_this: "invariantly I this"
  by (simp add: invariantly_def this_def)

lemma invariantly_bindM:
  assumes "invariantly I m" "\<And>v. invariantly I (f v)"
  shows "invariantly I (bindM m f)"
proof -
  have "I (snd (bindM m f s))" if "I s" for s
  proof (cases "m s")
    case (Pair r s')
    with assms(1) that have s': "I s'"
      by (auto simp: invariantly_def dest: spec [where x = s])
    show ?thesis
    proof (cases r)
      case (Inl e)
      with Pair s' show ?thesis by (simp add: bindM_def)
    next
      case (Inr v)
      with Pair s' assms(2) [of v] show ?thesis
        by (simp add: bindM_def invariantly_def)
    qed
  qed
  then show ?thesis by (simp add: invariantly_def)
qed

lemma invariantly_tryCatch:
  assumes "invariantly I m" "\<And>e. invariantly I (h e)"
  shows "invariantly I (tryCatch m h)"
proof -
  have "I (snd (tryCatch m h s))" if "I s" for s
  proof (cases "m s")
    case (Pair r s')
    with assms(1) that have s': "I s'"
      by (auto simp: invariantly_def dest: spec [where x = s])
    show ?thesis
    proof (cases r)
      case (Inl e)
      with Pair s' assms(2) [of e] show ?thesis
        by (simp add: tryCatch_def invariantly_def)
    next
      case (Inr v)
      with Pair s' show ?thesis by (simp add: tryCatch_def)
    qed
  qed
  then show ?thesis by (simp add: invariantly_def)
qed

lemma invariantly_if:
  assumes "invariantly I a" "invariantly I b"
  shows "invariantly I (if c then a else b)"
  using assms by simp

lemma invariantly_forEach:
  assumes "\<And>x. invariantly I (f x)"
  shows "invariantly I (forEach f xs)"
  by (induction xs) (auto intro: invariantly_ret invariantly_bindM assms)

lemma invariantly_dbCall:
  assumes "\<And>c. invariantly I (callDriver drv c)"
  shows "invariantly I (dbCall drv c)"
  unfolding dbCall_def
  by (intro invariantly_bindM invariantly_this)
     (auto split: option.splits intro: invariantly_throw assms)

lemma invariantly_ensurePreImageEnabled:
  assumes "\<And>c. invariantly I (callDriver drv c)" "\<And>c. invariantly I (print c)"
  shows "invariantly I (ensurePreImageEnabled drv collectionName)"
  unfolding ensurePreImageEnabled_def
  by (intro invariantly_bindM invariantly_if invariantly_tryCatch invariantly_lift
      invariantly_dbCall assms)

lemma invariantly_openFeed:
  assumes "\<And>c. invariantly I (callDriver drv c)"
    "\<And>s c. I s \<Longrightarrow> I (s\<lparr>feeds := feeds s @ [c]\<rparr>)"
  shows "invariantly I (openFeed drv collName)"
  unfolding openFeed_def
  by (intro invariantly_bindM invariantly_dbCall assms(1))
     (simp add: invariantly_def assms(2))

lemma invariantly_start:
  assumes "\<And>c. invariantly I (callDriver drv c)" "\<And>c. invariantly I (print c)"
    "\<And>s c. I s \<Longrightarrow> I (s\<lparr>feeds := feeds s @ [c]\<rparr>)"
  shows "invariantly I (start drv)"
  unfolding start_def
  by (intro invariantly_bindM invariantly_if invariantly_this invariantly_throw
      invariantly_lift invariantly_forEach invariantly_openFeed assms)


lemma keeps_mgr_callDriver: "invariantly (\<lambda>s. mgr s = m) (callDriver drv c)"
  by (simp add: invariantly_def callDriver_def)

lemma keeps_mgr_print: "invariantly (\<lambda>s. mgr s = m) (print c)"
  by (simp add: invariantly_def print_def)

lemma mgr_ensurePreImageEnabled: "mgr (snd (ensurePreImageEnabled drv c s)) = mgr s"
proof -
  have "invariantly (\<lambda>t. mgr t = mgr s) (ensurePreImageEnabled drv c)"
    by (intro invariantly_ensurePreImageEnabled keeps_mgr_callDriver keeps_mgr_print)
  then show ?thesis by (simp add: invariantly_def)
qed

lemma mgr_start: "mgr (snd (start drv s)) = mgr s"
proof -
  have "invariantly (\<lambda>t. mgr t = mgr s) (start drv)"
    by (intro invariantly_start keeps_mgr_callDriver keeps_mgr_print) simp
  then show ?thesis by (simp add: invariantly_def)
qed

lemma mgr_resume: "mgr (resume drv i s) = mgr s"
  by (simp add: resume_def split: option.splits task.splits sum.splits)

lemma mgr_exec: "\<not> isInitialize a \<Longrightarrow> mgr (exec drv s a) = mgr s"
  by (cases a) (simp_all add: mgr_ensurePreImageEnabled mgr_start mgr_resume arrive_def lift_def)

lemma mgr_run: "list_all (\<lambda>a. \<not> isInitialize a) acts \<Longrightarrow> mgr (run drv s acts) = mgr s"
  unfolding run_def
  by (induction acts arbitrary: s) (simp_all add: mgr_exec)

section \<open>Provisioning, initialize and start\<close>

lemmas io_defs =
  bindM_def ret_def throw_def lift_def tryCatch_def this_def assign_def print_def
  callDriver_def dbCall_def

lemma js_get_truthy: "truthy v \<Longrightarrow> js_get v k = Inr (fld v k)"
  by (cases v) (simp_all add: fld_def)

lemma dbCall_connected:
  "db (mgr s) \<noteq> None \<Longrightarrow> dbCall drv c s = (drv (out s) c, s\<lparr>out := out s @ [Called c]\<rparr>)"
  by (auto simp: io_defs)

lemma ensure_no_principal:
  assumes "db (mgr s) \<noteq> None"
    and "drv (out s) ConnectionStatus = Inr ci"
    and "authenticatedUser ci = Inr ui"
    and "\<not> truthy ui"
  shows "ensurePreImageEnabled drv c s =
           (Inr (), s\<lparr>out := out s @ [Called ConnectionStatus, Console (LogConnectedUser ui),
                                       Console WarnNoAuthenticatedUser]\<rparr>)"
  using assms
  by (simp add: ensurePreImageEnabled_def dbCall_connected bindM_def lift_def print_def)

lemma ensure_unknown_principal:
  assumes "db (mgr s) \<noteq> None"
    and "drv (out s) ConnectionStatus = Inr ci"
    and "authenticatedUser ci = Inr ui"
    and "truthy ui"
    and "drv (out s @ [Called ConnectionStatus, Console (LogConnectedUser ui)])
           (UsersInfo (fld ui ''user'') (fld ui ''db'')) = Inr doc"
    and "firstUser doc = Inr ud"
    and "\<not> truthy ud"
  shows "ensurePreImageEnabled drv c s =
           (Inr (), s\<lparr>out := out s @ [Called ConnectionStatus, Console (LogConnectedUser ui),
                                       Called (UsersInfo (fld ui ''user'') (fld ui ''db'')),
                                       Console (WarnUserNotFound (fld ui ''user'') (fld ui ''db''))]\<rparr>)"
  using assms
  by (simp add: ensurePreImageEnabled_def dbCall_connected bindM_def lift_def print_def
      js_get_truthy del: js_get.simps)

lemma ensure_reaches_collMod:
  assumes "db (mgr s) \<noteq> None"
    and "drv (out s) ConnectionStatus = Inr ci"
    and "authenticatedUser ci = Inr ui"
    and "truthy ui"
    and "drv (out s @ [Called ConnectionStatus, Console (LogConnectedUser ui)])
           (UsersInfo (fld ui ''user'') (fld ui ''db'')) = Inr doc"
    and "firstUser doc = Inr ud"
    and "truthy ud"
    and "canRunCollMod ud = Inr b"
  shows "ensurePreImageEnabled drv c s =
           (Inr (),
            s\<lparr>out := out s @ [Called ConnectionStatus, Console (LogConnectedUser ui),
                               Called (UsersInfo (fld ui ''user'') (fld ui ''db'')),
                               Console (LogEnabling c), Called (CollMod c),
                               (case drv (out s @ [Called ConnectionStatus,
                                           Console (LogConnectedUser ui),
                                           Called (UsersInfo (fld ui ''user'') (fld ui ''db'')),
                                           Console (LogEnabling c)]) (CollMod c) of
                                  Inl e \<Rightarrow> Console (WarnCouldNotEnable c e)
                                | Inr _ \<Rightarrow> Console (LogEnabled c))]\<rparr>)"
  using assms
  by (simp add: ensurePreImageEnabled_def dbCall_connected bindM_def lift_def print_def
      tryCatch_def js_get_truthy del: js_get.simps split: sum.splits)

lemma ensure_ok:
  assumes "resolves drv" "db (mgr s) \<noteq> None"
  shows "fst (ensurePreImageEnabled drv c s) = Inr ()"
proof -
  from assms(1) obtain ci ui where
    ci: "drv (out s) ConnectionStatus = Inr ci" and ui: "authenticatedUser ci = Inr ui"
    unfolding resolves_def by blast
  show ?thesis
  proof (cases "truthy ui")
    case False
    with ensure_no_principal [where s = s and drv = drv, OF assms(2) ci ui] show ?thesis by simp
  next
    case True
    from assms(1) obtain doc ud b where
      doc: "drv (out s @ [Called ConnectionStatus, Console (LogConnectedUser ui)])
              (UsersInfo (fld ui ''user'') (fld ui ''db'')) = Inr doc"
      and ud: "firstUser doc = Inr ud" and b: "canRunCollMod ud = Inr b"
      unfolding resolves_def by blast
    show ?thesis
    proof (cases "truthy ud")
      case False
      with ensure_unknown_principal [where s = s and drv = drv, OF assms(2) ci ui True doc ud] show ?thesis by simp
    next
      case t: True
      from ensure_reaches_collMod [where s = s and drv = drv, OF assms(2) ci ui True doc ud t b] show ?thesis by simp
    qed
  qed
qed

lemma feeds_ensurePreImageEnabled: "feeds (snd (ensurePreImageEnabled drv c s)) = feeds s"
proof -
  have "invariantly (\<lambda>t. feeds t = feeds s) (ensurePreImageEnabled drv c)"
    by (intro invariantly_ensurePreImageEnabled) (simp_all add: invariantly_def io_defs)
  then show ?thesis by (simp add: invariantly_def)
qed

lemma forEach_ensure_ok:
  assumes "resolves drv"
  shows "db (mgr s) \<noteq> None \<Longrightarrow>
         fst (forEach (ensurePreImageEnabled drv) names s) = Inr ()
         \<and> mgr (snd (forEach (ensurePreImageEnabled drv) names s)) = mgr s
         \<and> feeds (snd (forEach (ensurePreImageEnabled drv) names s)) = feeds s"
proof (induction names arbitrary: s)
  case Nil
  then show ?case by (simp add: ret_def)
next
  case (Cons c names)
  obtain s' where s': "ensurePreImageEnabled drv c s = (Inr (), s')"
    using ensure_ok [OF assms Cons.prems, of c]
    by (cases "ensurePreImageEnabled drv c s") auto
  have m: "mgr s' = mgr s" using mgr_ensurePreImageEnabled [of drv c s] s' by simp
  have f: "feeds s' = feeds s" using feeds_ensurePreImageEnabled [of drv c s] s' by simp
  from Cons.IH [of s'] Cons.prems m f s' show ?case
    by (simp add: bindM_def)
qed

lemma initialize_valid:
  assumes "truthy (opt_uri opts)"
    and "opt_collections opts = JArr names" "names \<noteq> []"
    and "drv (out s) (NewMongoClient (opt_uri opts)) = Inr v1"
    and "drv (out s @ [Called (NewMongoClient (opt_uri opts))]) Connect = Inr v2"
  shows "initialize drv (Some opts) s =
           forEach (ensurePreImageEnabled drv) names
             (s\<lparr>mgr := configured opts (mgr s),
                out := out s @ [Called (NewMongoClient (opt_uri opts)), Called Connect,
                                Console (LogInitialized (JArr names))]\<rparr>)"
  using assms
  by (cases "opt_transform opts")
     (simp_all add: initialize_def io_defs bindE_def configured_def)

lemma initialize_ok:
  assumes "connects drv" "resolves drv"
    and "truthy (opt_uri opts)"
    and "opt_collections opts = JArr names" "names \<noteq> []"
  shows "fst (initialize drv (Some opts) s) = Inr ()
         \<and> mgr (snd (initialize drv (Some opts) s)) = configured opts (mgr s)
         \<and> feeds (snd (initialize drv (Some opts) s)) = feeds s"
proof -
  from assms(1) obtain v1 v2 where
    v1: "drv (out s) (NewMongoClient (opt_uri opts)) = Inr v1" and
    v2: "drv (out s @ [Called (NewMongoClient (opt_uri opts))]) Connect = Inr v2"
    unfolding connects_def by blast
  show ?thesis
    unfolding initialize_valid [where s = s and drv = drv, OF assms(3-5) v1 v2]
    using forEach_ensure_ok [OF assms(2), of "s\<lparr>mgr := configured opts (mgr s),
                out := out s @ [Called (NewMongoClient (opt_uri opts)), Called Connect,
                                Console (LogInitialized (JArr names))]\<rparr>" names]
    by (simp add: configured_def)
qed




lemma resolves_answering:
  assumes "canRunCollMod u = Inr b"
  shows "resolves (answering u a)"
  using assms
  by (auto simp: resolves_def answering_def statusDoc_def authenticatedUser_def firstUser_def
      bindE_def)

lemma connects_answering: "connects (answering u a)"
  by (simp add: connects_def answering_def)


lemma reader_cannot: "canRunCollMod (encodeProfile readerProfile) = Inr False"
  by (simp add: canRunCollMod_encodeProfile canElevate_def readerProfile_def readPrivilege_def
      grantsAction_def inAllowList_def adminRoles_def)

lemma owner_can: "canRunCollMod (encodeProfile ownerProfile) = Inr True"
  by (simp add: canRunCollMod_encodeProfile canElevate_def ownerProfile_def grantingPrivilege_def
      grantsAction_def)

lemma truthy_encodeProfile: "truthy (encodeProfile p)"
  by (simp add: encodeProfile_def)

lemma ensure_answering:
  assumes "db (mgr s) \<noteq> None" "canRunCollMod (encodeProfile p) = Inr b"
  shows "ensurePreImageEnabled (answering (encodeProfile p) a) c s =
           (Inr (),
            s\<lparr>out := out s @
                 [Called ConnectionStatus,
                  Console (LogConnectedUser (JObj [(''user'', JStr ''auditor''), (''db'', JStr ''admin'')])),
                  Called (UsersInfo (JStr ''auditor'') (JStr ''admin'')),
                  Console (LogEnabling c), Called (CollMod c),
                  (case a of Inl e \<Rightarrow> Console (WarnCouldNotEnable c e)
                   | Inr _ \<Rightarrow> Console (LogEnabled c))]\<rparr>)"
proof -
  let ?ui = "JObj [(''user'', JStr ''auditor''), (''db'', JStr ''admin'')]"
  let ?doc = "JObj [(''users'', JArr [encodeProfile p]), (''ok'', JNum 1)]"
  have ci: "answering (encodeProfile p) a (out s) ConnectionStatus = Inr statusDoc"
    by (simp add: answering_def)
  have ui: "authenticatedUser statusDoc = Inr ?ui"
    by (simp add: statusDoc_def authenticatedUser_def bindE_def)
  have t: "truthy ?ui" by simp
  have doc: "answering (encodeProfile p) a
               (out s @ [Called ConnectionStatus, Console (LogConnectedUser ?ui)])
               (UsersInfo (fld ?ui ''user'') (fld ?ui ''db'')) = Inr ?doc"
    by (simp add: answering_def)
  have ud: "firstUser ?doc = Inr (encodeProfile p)"
    by (simp add: firstUser_def bindE_def)
  from ensure_reaches_collMod [where s = s and drv = "answering (encodeProfile p) a",
      OF assms(1) ci ui t doc ud truthy_encodeProfile assms(2), of c]
  show ?thesis
    by (simp add: fld_def answering_def)
qed

text \<open>
  C2. The code at a principal without the permission: \<^verbatim>\<open>canRunCollMod\<close> resolves to
  false for the read-only principal, and \<^verbatim>\<open>ensurePreImageEnabled\<close> still sends the
  \<^verbatim>\<open>collMod\<close> command for the collection; the server refuses it, and the refusal is
  caught and logged.
\<close>

theorem collMod_attempted_without_permission:
  "canRunCollMod (encodeProfile readerProfile) = Inr False
   \<and> ensurePreImageEnabled readOnlyDriver (JStr ''orders'') connected =
       (Inr (),
        connected\<lparr>out :=
          [Called ConnectionStatus,
           Console (LogConnectedUser (JObj [(''user'', JStr ''auditor''), (''db'', JStr ''admin'')])),
           Called (UsersInfo (JStr ''auditor'') (JStr ''admin'')),
           Console (LogEnabling (JStr ''orders'')),
           Called (CollMod (JStr ''orders'')),
           Console (WarnCouldNotEnable (JStr ''orders'') notAuthorized)]\<rparr>)"
proof -
  have d: "db (mgr connected) \<noteq> None"
    by (simp add: connected_def plainManager_def)
  from ensure_answering [OF d reader_cannot, of "Inl notAuthorized" "JStr ''orders''"] reader_cannot
  show ?thesis
    by (simp add: readOnlyDriver_def connected_def boot_def)
qed




















text \<open>
  C9. No method other than \<^verbatim>\<open>initialize\<close> writes a configuration field:
  \<^verbatim>\<open>start\<close>, \<^verbatim>\<open>ensurePreImageEnabled\<close> and every step of a change handler leave the
  manager as it is (\<^verbatim>\<open>createAuditDoc\<close> only reads it), and so does every schedule of
  calls, registrations, notifications and resumptions in which \<^verbatim>\<open>initialize\<close> is not
  called again.
\<close>

theorem configuration_is_frozen:
  assumes "list_all (\<lambda>a. \<not> isInitialize a) acts"
  shows "client (mgr (run drv s acts)) = client (mgr s)
       \<and> db (mgr (run drv s acts)) = db (mgr s)
       \<and> collections (mgr (run drv s acts)) = collections (mgr s)
       \<and> auditCollection (mgr (run drv s acts)) = auditCollection (mgr s)
       \<and> transform (mgr (run drv s acts)) = transform (mgr s)
       \<and> mgr (snd (start drv s)) = mgr s
       \<and> mgr (snd (ensurePreImageEnabled drv c s)) = mgr s
       \<and> mgr (arrive k change now s) = mgr s
       \<and> mgr (resume drv i s) = mgr s"
  using mgr_run [OF assms, of drv s]
  by (simp add: mgr_start mgr_ensurePreImageEnabled mgr_resume arrive_def)

theorem configuration_is_frozen_witness:
  "fst (initialize adminDriver (Some shopOptions) boot) = Inr ()
   \<and> mgr (snd (initialize adminDriver (Some shopOptions) boot)) = plainManager
   \<and> mgr (run adminDriver (snd (initialize adminDriver (Some shopOptions) boot))
        [CallStart, On 1, Arrive 0 updateChange 1700000000, Resume 0, Resume 0, Resume 0,
         CallEnsurePreImageEnabled (JStr ''orders''),
         CallCreateAuditDoc updateChange (JStr ''orders'') 1700000001, Off 1]) = plainManager"
proof -
  have h1: "connects adminDriver"
    by (simp add: adminDriver_def connects_answering)
  have h2: "resolves adminDriver"
    unfolding adminDriver_def by (rule resolves_answering [OF owner_can])
  have h4: "truthy (opt_uri shopOptions)" "opt_collections shopOptions = JArr [JStr ''orders'']"
    by (simp_all add: shopOptions_def)
  have c: "configured shopOptions (mgr boot) = plainManager"
    by (simp add: configured_def shopOptions_def plainManager_def boot_def new_manager_def)
  from initialize_ok [OF h1 h2 h4, of boot] c have
    i: "fst (initialize adminDriver (Some shopOptions) boot) = Inr ()"
       "mgr (snd (initialize adminDriver (Some shopOptions) boot)) = plainManager"
    by simp_all
  have l: "list_all (\<lambda>a. \<not> isInitialize a)
        [CallStart, On 1, Arrive 0 updateChange 1700000000, Resume 0, Resume 0, Resume 0,
         CallEnsurePreImageEnabled (JStr ''orders''),
         CallCreateAuditDoc updateChange (JStr ''orders'') 1700000001, Off 1]"
    by simp
  have "mgr (run adminDriver (snd (initialize adminDriver (Some shopOptions) boot))
        [CallStart, On 1, Arrive 0 updateChange 1700000000, Resume 0, Resume 0, Resume 0,
         CallEnsurePreImageEnabled (JStr ''orders''),
         CallCreateAuditDoc updateChange (JStr ''orders'') 1700000001, Off 1])
      = mgr (snd (initialize adminDriver (Some shopOptions) boot))"
    using configuration_is_frozen [OF l, of adminDriver
        "snd (initialize adminDriver (Some shopOptions) boot)"]
    by (cases "mgr (run adminDriver (snd (initialize adminDriver (Some shopOptions) boot))
        [CallStart, On 1, Arrive 0 updateChange 1700000000, Resume 0, Resume 0, Resume 0,
         CallEnsurePreImageEnabled (JStr ''orders''),
         CallCreateAuditDoc updateChange (JStr ''orders'') 1700000001, Off 1])",
        cases "mgr (snd (initialize adminDriver (Some shopOptions) boot))") simp
  with i show ?thesis by simp
qed

section \<open>The change handler\<close>




























































end
